theory Spec2Isabelle
  imports Main "HOL-Library.Word"
begin

unbundle bit_operations_syntax

section \<open>The in-memory driver of namestore (memory.go)\<close>

text \<open>
  The driver keeps a Go map from storage key to entry behind one mutex. Every operation
  holds the mutex for its whole body, so an operation is modelled as a function from the
  table before the call to its result and the table after it. The clock reading
  \<open>time.Now()\<close> of a call is the argument \<open>now\<close>; \<open>TTL\<close>, which reads the clock
  again for the duration it returns, takes that second reading as \<open>later\<close>.
\<close>

subsection \<open>Data model\<close>

text \<open>
  \<open>[]byte\<close> is a list of 8-bit words; a nil slice and an empty slice are both \<open>[]\<close>.
  \<open>time.Time\<close> is the instant in nanoseconds counted from the zero instant
  \<open>time.Time{}\<close>, so that \<open>IsZero\<close> is equality with 0. \<open>time.Duration\<close> is Go's
  int64 count of nanoseconds, a 64-bit word read as two's complement.
\<close>

type_synonym byte = "8 word"
type_synonym Time = int
type_synonym Duration = "64 word"

record entry =
  value_b :: "byte list"
  expire :: Time

type_synonym table = "string \<rightharpoonup> entry"

datatype error = ErrNotFound | ErrTypeMismatch | ErrInvalidPattern

definition IsZero :: "Time \<Rightarrow> bool" where
  "IsZero t = (t = 0)"

text \<open>The zero value \<open>entry{}\<close>, which a Go map read returns for a missing key.\<close>

definition zero_entry :: entry where
  "zero_entry = \<lparr>value_b = [], expire = 0\<rparr>"

text \<open>The two-result map read \<open>e, ok := m.data[key]\<close>.\<close>

definition lookup :: "table \<Rightarrow> string \<Rightarrow> entry \<times> bool" where
  "lookup m key = (case m key of Some e \<Rightarrow> (e, True) | None \<Rightarrow> (zero_entry, False))"

definition expired :: "Time \<Rightarrow> entry \<Rightarrow> bool" where
  "expired now e = (if IsZero (expire e) then False else now > expire e)"

definition expiry :: "Time \<Rightarrow> Duration \<Rightarrow> Time" where
  "expiry now ttl = (if sint ttl \<le> 0 then 0 else now + sint ttl)"

definition clone :: "byte list \<Rightarrow> byte list" where
  "clone src = (if length src = 0 then [] else src)"

subsection \<open>Counters: encoding/binary.LittleEndian\<close>

definition LittleEndian_Uint64 :: "byte list \<Rightarrow> 64 word" where
  "LittleEndian_Uint64 b =
     ucast (b ! 0) OR push_bit 8 (ucast (b ! 1)) OR push_bit 16 (ucast (b ! 2))
       OR push_bit 24 (ucast (b ! 3)) OR push_bit 32 (ucast (b ! 4))
       OR push_bit 40 (ucast (b ! 5)) OR push_bit 48 (ucast (b ! 6))
       OR push_bit 56 (ucast (b ! 7))"

definition LittleEndian_PutUint64 :: "64 word \<Rightarrow> byte list" where
  "LittleEndian_PutUint64 v =
     [ucast v, ucast (drop_bit 8 v), ucast (drop_bit 16 v), ucast (drop_bit 24 v),
      ucast (drop_bit 32 v), ucast (drop_bit 40 v), ucast (drop_bit 48 v),
      ucast (drop_bit 56 v)]"

text \<open>
  \<open>Incr\<close>: an expired entry is deleted and treated as absent; a live entry must hold
  exactly 8 bytes; the sum wraps in int64; a live entry keeps its \<open>expire\<close> field and a
  new one gets the zero instant.
\<close>

definition Incr :: "Time \<Rightarrow> table \<Rightarrow> string \<Rightarrow> 64 word \<Rightarrow> (error + 64 word) \<times> table" where
  "Incr now m key delta =
     (let (e, ok) = lookup m key;
          (m, ok) = (if ok \<and> expired now e then (m(key := None), False) else (m, ok))
      in if ok \<and> length (value_b e) \<noteq> 8 then (Inl ErrTypeMismatch, m)
         else
           let current = (if ok then LittleEndian_Uint64 (value_b e) else 0);
               newValue = current + delta;
               buf = LittleEndian_PutUint64 newValue
           in if ok then (Inr newValue, m(key \<mapsto> e\<lparr>value_b := buf\<rparr>))
              else (Inr newValue, m(key \<mapsto> \<lparr>value_b = buf, expire = 0\<rparr>)))"

definition Decr :: "Time \<Rightarrow> table \<Rightarrow> string \<Rightarrow> 64 word \<Rightarrow> (error + 64 word) \<times> table" where
  "Decr now m key delta = Incr now m key (- delta)"

subsection \<open>Single-key operations\<close>

text \<open>\<open>Set\<close> overwrites unconditionally and always returns a nil error.\<close>

definition Set :: "Time \<Rightarrow> table \<Rightarrow> string \<Rightarrow> byte list \<Rightarrow> Duration \<Rightarrow> error option \<times> table" where
  "Set now m key v ttl = (None, m(key \<mapsto> \<lparr>value_b = clone v, expire = expiry now ttl\<rparr>))"

text \<open>
  \<open>Get\<close> and \<open>Exists\<close> read once under the read lock and, when that snapshot is
  expired, read again under the write lock before deleting. With no other caller in
  between, the second read sees the same table.
\<close>

definition Get :: "Time \<Rightarrow> table \<Rightarrow> string \<Rightarrow> (error + byte list) \<times> table" where
  "Get now m key =
     (let (e, ok) = lookup m key
      in if \<not> ok then (Inl ErrNotFound, m)
         else if \<not> expired now e then (Inr (clone (value_b e)), m)
         else
           let (e, ok) = lookup m key
           in if \<not> ok then (Inl ErrNotFound, m)
              else if expired now e then (Inl ErrNotFound, m(key := None))
              else (Inr (clone (value_b e)), m))"

definition Exists :: "Time \<Rightarrow> table \<Rightarrow> string \<Rightarrow> bool \<times> table" where
  "Exists now m key =
     (let (e, ok) = lookup m key
      in if \<not> ok then (False, m)
         else if \<not> expired now e then (True, m)
         else
           let (e, ok) = lookup m key
           in if \<not> ok then (False, m)
              else if expired now e then (False, m(key := None))
              else (True, m))"

subsection \<open>Batch read\<close>

text \<open>
  \<open>MGet\<close> fills a fresh result map from the keys in order. Its body never writes to
  \<open>m.data\<close>, so the table it returns is the table it was given.
\<close>

fun MGet_loop :: "Time \<Rightarrow> table \<Rightarrow> string list \<Rightarrow> (string \<rightharpoonup> byte list) \<Rightarrow> (string \<rightharpoonup> byte list)" where
  "MGet_loop now m [] result = result"
| "MGet_loop now m (key # keys) result =
     (let (entry, ok) = lookup m key
      in MGet_loop now m keys
           (if ok \<and> \<not> expired now entry then result(key \<mapsto> clone (value_b entry)) else result))"

definition MGet :: "Time \<Rightarrow> table \<Rightarrow> string list \<Rightarrow> (string \<rightharpoonup> byte list) \<times> table" where
  "MGet now m keys = (MGet_loop now m keys Map.empty, m)"

subsection \<open>TTL management\<close>

text \<open>
  \<open>time.Until(t)\<close> is \<open>t.Sub(time.Now())\<close>, which saturates at the least and the
  greatest Duration.
\<close>

definition time_Until :: "Time \<Rightarrow> Time \<Rightarrow> Duration" where
  "time_Until now t =
     (let d = t - now
      in if d < - (2 ^ 63) then word_of_int (- (2 ^ 63))
         else if d > 2 ^ 63 - 1 then word_of_int (2 ^ 63 - 1)
         else word_of_int d)"

text \<open>
  \<open>TTL\<close> reads the clock in \<open>entry.expired()\<close> and, for an entry with a finite
  expiration, once more in \<open>time.Until\<close>: \<open>now\<close> and \<open>later\<close>.
\<close>

definition TTL :: "Time \<Rightarrow> Time \<Rightarrow> table \<Rightarrow> string \<Rightarrow> (error + Duration) \<times> table" where
  "TTL now later m key =
     (let (entry, ok) = lookup m key
      in if \<not> ok \<or> expired now entry
         then (Inl ErrNotFound, if ok then m(key := None) else m)
         else if IsZero (expire entry) then (Inr (- 1), m)
         else (Inr (time_Until later (expire entry)), m))"

definition Expire :: "Time \<Rightarrow> table \<Rightarrow> string \<Rightarrow> Duration \<Rightarrow> error option \<times> table" where
  "Expire now m key ttl =
     (let (entry, ok) = lookup m key
      in if \<not> ok \<or> expired now entry
         then (Some ErrNotFound, if ok then m(key := None) else m)
         else (None, m(key \<mapsto> entry\<lparr>expire := expiry now ttl\<rparr>)))"

definition Persist :: "Time \<Rightarrow> table \<Rightarrow> string \<Rightarrow> error option \<times> table" where
  "Persist now m key =
     (let (entry, ok) = lookup m key
      in if \<not> ok \<or> expired now entry
         then (Some ErrNotFound, if ok then m(key := None) else m)
         else (None, m(key \<mapsto> entry\<lparr>expire := 0\<rparr>)))"

subsection \<open>Enumeration\<close>

text \<open>
  \<open>Keys\<close> ranges over the Go map, whose iteration order is not fixed: the order is the
  argument \<open>order\<close>, a list of the table's keys. The glob matcher is
  \<open>path/filepath.Match\<close> of Go's standard library, which is not part of this
  repository: it is the argument \<open>match\<close>, returning either its only error
  \<open>ErrBadPattern\<close> or whether the name matches.
\<close>

datatype match_error = ErrBadPattern

type_synonym matcher = "string \<Rightarrow> string \<Rightarrow> match_error + bool"

definition HasPrefix :: "string \<Rightarrow> string \<Rightarrow> bool" where
  "HasPrefix s p = (length s \<ge> length p \<and> take (length p) s = p)"

fun Keys_loop :: "matcher \<Rightarrow> Time \<Rightarrow> table \<Rightarrow> string \<Rightarrow> string \<Rightarrow> string list \<Rightarrow> string list
    \<Rightarrow> error + string list" where
  "Keys_loop match now m prefix pattern [] result = Inr result"
| "Keys_loop match now m prefix pattern (key # rest) result =
     (if \<not> HasPrefix key (prefix @ '':'') then Keys_loop match now m prefix pattern rest result
      else
        case (if pattern \<noteq> [] \<and> pattern \<noteq> ''*''
              then match pattern (drop (length prefix + 1) key) else Inr True) of
          Inl err \<Rightarrow> Inl ErrInvalidPattern
        | Inr matched \<Rightarrow>
            if \<not> matched then Keys_loop match now m prefix pattern rest result
            else if \<not> expired now (fst (lookup m key))
              then Keys_loop match now m prefix pattern rest (result @ [key])
              else Keys_loop match now m prefix pattern rest result)"

definition Keys :: "matcher \<Rightarrow> string list \<Rightarrow> Time \<Rightarrow> table \<Rightarrow> string \<Rightarrow> string
    \<Rightarrow> (error + string list) \<times> table" where
  "Keys match order now m prefix pattern = (Keys_loop match now m prefix pattern order [], m)"

text \<open>
  The theorems about \<open>Keys\<close> hold for every matcher. A closed example has to name one:
  this one reports \<open>ErrBadPattern\<close> for every pattern and every name, so that no
  example below depends on how a pattern is parsed.
\<close>

definition reject_every_pattern :: matcher where
  "reject_every_pattern pattern name = Inl ErrBadPattern"

subsection \<open>Atomic operations\<close>

definition GetSet :: "Time \<Rightarrow> table \<Rightarrow> string \<Rightarrow> byte list \<Rightarrow> (error + byte list) \<times> table" where
  "GetSet now m key v =
     (let (e, ok) = lookup m key
      in if \<not> ok \<or> expired now e
         then
           let m = (if ok then m(key := None) else m)
           in (Inl ErrNotFound, m(key \<mapsto> \<lparr>value_b = clone v, expire = 0\<rparr>))
         else
           let oldValue = clone (value_b e);
               e = e\<lparr>value_b := clone v\<rparr>
           in (Inr oldValue, m(key \<mapsto> e)))"

text \<open>\<open>bytes.Equal\<close> compares contents, so nil and empty are equal: list equality.\<close>

definition CompareAndSwap :: "Time \<Rightarrow> table \<Rightarrow> string \<Rightarrow> byte list \<Rightarrow> byte list \<Rightarrow> Duration
    \<Rightarrow> bool \<times> table" where
  "CompareAndSwap now m key oldValue newValue ttl =
     (let (e, ok) = lookup m key
      in if \<not> ok \<or> expired now e then (False, if ok then m(key := None) else m)
         else if value_b e \<noteq> oldValue then (False, m)
         else (True, m(key \<mapsto> \<lparr>value_b = clone newValue, expire = expiry now ttl\<rparr>)))"

section \<open>Basic facts\<close>

lemma lookup_Some: "m key = Some e \<Longrightarrow> lookup m key = (e, True)"
  by (simp add: lookup_def)

lemma lookup_None: "m key = None \<Longrightarrow> lookup m key = (zero_entry, False)"
  by (simp add: lookup_def)

lemma clone_id: "clone src = src"
  by (simp add: clone_def)

lemma entry_update_value:
  "(e :: entry)\<lparr>value_b := v\<rparr> = \<lparr>value_b = v, expire = expire e\<rparr>"
  by (cases e) simp

lemma not_expired_zero: "expire e = 0 \<Longrightarrow> \<not> expired now e"
  by (simp add: expired_def IsZero_def)

subsection \<open>The little-endian encoding round-trips\<close>

lemma bit_byte_at:
  "bit (push_bit k (ucast (ucast (drop_bit k (v :: 64 word)) :: 8 word) :: 64 word)) n
     \<longleftrightarrow> k \<le> n \<and> n < k + 8 \<and> n < 64 \<and> bit v n"
  by (auto simp add: bit_push_bit_iff bit_ucast_iff bit_drop_bit_eq)

lemma bit_byte_at0:
  "bit (ucast (ucast (v :: 64 word) :: 8 word) :: 64 word) n \<longleftrightarrow> n < 8 \<and> bit v n"
  by (auto simp add: bit_ucast_iff)

lemma Uint64_PutUint64: "LittleEndian_Uint64 (LittleEndian_PutUint64 v) = v"
proof (rule bit_word_eqI)
  fix n :: nat
  assume "n < LENGTH(64)"
  then have n: "n < 64" by simp
  have "bit (LittleEndian_Uint64 (LittleEndian_PutUint64 v)) n \<longleftrightarrow>
      (n < 8 \<or> (8 \<le> n \<and> n < 16) \<or> (16 \<le> n \<and> n < 24) \<or> (24 \<le> n \<and> n < 32)
      \<or> (32 \<le> n \<and> n < 40) \<or> (40 \<le> n \<and> n < 48) \<or> (48 \<le> n \<and> n < 56)
      \<or> (56 \<le> n \<and> n < 64)) \<and> bit v n"
    unfolding LittleEndian_Uint64_def LittleEndian_PutUint64_def
    using n by (simp add: bit_or_iff bit_byte_at bit_byte_at0) blast
  moreover have "n < 8 \<or> (8 \<le> n \<and> n < 16) \<or> (16 \<le> n \<and> n < 24) \<or> (24 \<le> n \<and> n < 32)
      \<or> (32 \<le> n \<and> n < 40) \<or> (40 \<le> n \<and> n < 48) \<or> (48 \<le> n \<and> n < 56)
      \<or> (56 \<le> n \<and> n < 64)"
    using n by linarith
  ultimately show "bit (LittleEndian_Uint64 (LittleEndian_PutUint64 v)) n \<longleftrightarrow> bit v n"
    by simp
qed

lemma length_PutUint64: "length (LittleEndian_PutUint64 v) = 8"
  by (simp add: LittleEndian_PutUint64_def)

subsection \<open>The three paths of \<open>Incr\<close>\<close>

lemma Incr_live:
  assumes "m key = Some e" and "\<not> expired now e" and "length (value_b e) = 8"
  shows "Incr now m key delta =
     (Inr (LittleEndian_Uint64 (value_b e) + delta),
      m(key \<mapsto> e\<lparr>value_b := LittleEndian_PutUint64 (LittleEndian_Uint64 (value_b e) + delta)\<rparr>))"
  using assms by (simp add: Incr_def lookup_Some Let_def)

lemma Incr_mismatch:
  assumes "m key = Some e" and "\<not> expired now e" and "length (value_b e) \<noteq> 8"
  shows "Incr now m key delta = (Inl ErrTypeMismatch, m)"
  using assms by (simp add: Incr_def lookup_Some Let_def)

lemma Incr_expired:
  assumes "m key = Some e" and "expired now e"
  shows "Incr now m key delta =
     (Inr delta, m(key \<mapsto> \<lparr>value_b = LittleEndian_PutUint64 delta, expire = 0\<rparr>))"
  using assms by (simp add: Incr_def lookup_Some Let_def)

lemma Incr_absent:
  assumes "m key = None"
  shows "Incr now m key delta =
     (Inr delta, m(key \<mapsto> \<lparr>value_b = LittleEndian_PutUint64 delta, expire = 0\<rparr>))"
  using assms by (simp add: Incr_def lookup_None Let_def)

lemma max_int64_plus_one:
  assumes "sint (c :: 64 word) = 2 ^ 63 - 1"
  shows "sint (c + 1) = - (2 ^ 63)"
proof -
  have "c = word_of_int (sint c)" by simp
  then have "c = 0x7FFFFFFFFFFFFFFF" using assms by simp
  then show ?thesis by simp
qed

section \<open>Counter operations\<close>

text \<open>
  C5. \<open>Incr(k, 1)\<close> on a live key whose 8 bytes decode to the greatest int64,
  \<open>2^63 - 1\<close>, succeeds and returns the least int64, \<open>-2^63\<close>: the sum wraps in two's
  complement. The entry written back holds the 8-byte encoding of that result.
\<close>

theorem Incr_wraps_at_max_int64:
  assumes "m key = Some e" and "\<not> expired now e" and "length (value_b e) = 8"
    and "sint (LittleEndian_Uint64 (value_b e)) = 2 ^ 63 - 1"
  shows "\<exists>r e'. Incr now m key 1 = (Inr r, m(key \<mapsto> e')) \<and> sint r = - (2 ^ 63)
            \<and> length (value_b e') = 8 \<and> LittleEndian_Uint64 (value_b e') = r"
proof -
  let ?r = "LittleEndian_Uint64 (value_b e) + 1"
  let ?e' = "e\<lparr>value_b := LittleEndian_PutUint64 ?r\<rparr>"
  have "Incr now m key 1 = (Inr ?r, m(key \<mapsto> ?e'))"
    using assms(1-3) by (rule Incr_live)
  moreover have "sint ?r = - (2 ^ 63)"
    using assms(4) by (rule max_int64_plus_one)
  moreover have "length (value_b ?e') = 8"
    by (simp add: length_PutUint64)
  moreover have "LittleEndian_Uint64 (value_b ?e') = ?r"
    by (simp add: Uint64_PutUint64)
  ultimately show ?thesis by blast
qed

theorem Incr_wraps_at_max_int64_witness:
  "\<exists>r e'. Incr 10 [''ctr'' \<mapsto> \<lparr>value_b = [255, 255, 255, 255, 255, 255, 255, 127], expire = 0\<rparr>]
              ''ctr'' 1
            = (Inr r, [''ctr'' \<mapsto> \<lparr>value_b = [255, 255, 255, 255, 255, 255, 255, 127],
                                   expire = 0\<rparr>](''ctr'' \<mapsto> e'))
          \<and> sint r = - (2 ^ 63) \<and> length (value_b e') = 8 \<and> LittleEndian_Uint64 (value_b e') = r"
proof -
  let ?e = "\<lparr>value_b = [255, 255, 255, 255, 255, 255, 255, 127 :: byte], expire = 0\<rparr>"
  have h1: "[''ctr'' \<mapsto> ?e] ''ctr'' = Some ?e" by simp
  have h2: "\<not> expired 10 ?e" by (simp add: not_expired_zero)
  have h3: "length (value_b ?e) = 8" by simp
  have h4: "sint (LittleEndian_Uint64 (value_b ?e)) = 2 ^ 63 - 1"
    by (simp add: LittleEndian_Uint64_def)
  show ?thesis
    by (rule Incr_wraps_at_max_int64
          [where m = "[''ctr'' \<mapsto> ?e]" and key = "''ctr''" and e = ?e and now = 10,
           OF h1 h2 h3 h4])
qed

text \<open>
  C6. A successful \<open>Incr(k, delta)\<close> writes exactly one entry, for \<open>k\<close>, holding the
  8-byte encoding of the result. Its expiration is the one of the live entry that was
  there (finite or none), and none (the zero instant) when \<open>k\<close> was absent or expired.
\<close>

theorem Incr_keeps_expiration:
  assumes "Incr now m key delta = (Inr r, m')"
  shows "\<exists>e'. m' = m(key \<mapsto> e') \<and> value_b e' = LittleEndian_PutUint64 r
           \<and> expire e' = (case m key of
                             None \<Rightarrow> 0
                           | Some e \<Rightarrow> if expired now e then 0 else expire e)"
proof (cases "m key")
  case None
  with assms show ?thesis by (auto simp: Incr_absent)
next
  case (Some e)
  show ?thesis
  proof (cases "expired now e")
    case True
    with Some assms show ?thesis by (auto simp: Incr_expired)
  next
    case False
    show ?thesis
    proof (cases "length (value_b e) = 8")
      case True
      with Some \<open>\<not> expired now e\<close> assms show ?thesis by (auto simp: Incr_live)
    next
      case False
      with Some \<open>\<not> expired now e\<close> assms show ?thesis by (simp add: Incr_mismatch)
    qed
  qed
qed

theorem Incr_keeps_expiration_witness:
  "\<exists>e'. [''ctr'' \<mapsto> \<lparr>value_b = LittleEndian_PutUint64 8, expire = 500\<rparr>]
            = [''ctr'' \<mapsto> \<lparr>value_b = LittleEndian_PutUint64 3, expire = 500\<rparr>](''ctr'' \<mapsto> e')
         \<and> value_b e' = LittleEndian_PutUint64 8 \<and> expire e' = 500"
proof -
  let ?m = "[''ctr'' \<mapsto> \<lparr>value_b = LittleEndian_PutUint64 3, expire = 500\<rparr>]"
  have live: "\<not> expired 100 \<lparr>value_b = LittleEndian_PutUint64 3, expire = 500\<rparr>"
    by (simp add: expired_def IsZero_def)
  have run: "Incr 100 ?m ''ctr'' 5
      = (Inr 8, [''ctr'' \<mapsto> \<lparr>value_b = LittleEndian_PutUint64 8, expire = 500\<rparr>])"
    using live by (simp add: Incr_live length_PutUint64 Uint64_PutUint64)
  show ?thesis using Incr_keeps_expiration [OF run] live by simp
qed

text \<open>
  C9. \<open>Incr(k, delta)\<close> on a live entry whose value is not exactly 8 bytes long fails
  with \<open>ErrTypeMismatch\<close> and returns the table as it was: the entry keeps its value and
  its expiration.
\<close>

theorem Incr_type_mismatch_leaves_table:
  assumes "m key = Some e" and "\<not> expired now e" and "length (value_b e) \<noteq> 8"
  shows "Incr now m key delta = (Inl ErrTypeMismatch, m)"
  using assms by (simp add: Incr_def lookup_Some Let_def)

theorem Incr_type_mismatch_leaves_table_witness:
  "Incr 100 [''name'' \<mapsto> \<lparr>value_b = [104, 105], expire = 500\<rparr>] ''name'' 1
     = (Inl ErrTypeMismatch, [''name'' \<mapsto> \<lparr>value_b = [104, 105], expire = 500\<rparr>])"
proof -
  let ?e = "\<lparr>value_b = [104, 105 :: byte], expire = 500\<rparr>"
  have h1: "[''name'' \<mapsto> ?e] ''name'' = Some ?e" by simp
  have h2: "\<not> expired 100 ?e" by (simp add: expired_def IsZero_def)
  have h3: "length (value_b ?e) \<noteq> 8" by simp
  show ?thesis
    by (rule Incr_type_mismatch_leaves_table
          [where m = "[''name'' \<mapsto> ?e]" and key = "''name''" and e = ?e and now = 100,
           OF h1 h2 h3])
qed

section \<open>Expiration\<close>

text \<open>
  C7. After \<open>Set(k, v, ttl)\<close> with a non-positive \<open>ttl\<close>, \<open>TTL(k)\<close>, whatever its
  clock readings, succeeds with the Duration \<open>-1\<close>, the answer for an entry with no expiration;
  \<open>Set\<close> itself returns no error.
\<close>

theorem TTL_after_Set_nonpositive:
  assumes "sint ttl \<le> 0"
  shows "fst (Set now m key v ttl) = None
       \<and> fst (TTL now' later (snd (Set now m key v ttl)) key) = Inr (- 1)"
  using assms
  by (simp add: Set_def TTL_def lookup_def expiry_def expired_def IsZero_def)

theorem TTL_after_Set_nonpositive_witness:
  "sint (0 :: Duration) \<le> 0
     \<and> fst (Set 100 Map.empty ''a'' [49] 0) = None
     \<and> fst (TTL 200 201 (snd (Set 100 Map.empty ''a'' [49] 0)) ''a'') = Inr (- 1)"
proof -
  have h: "sint (0 :: Duration) \<le> 0" by simp
  show ?thesis
    using h TTL_after_Set_nonpositive
      [where ttl = 0 and now = 100 and m = Map.empty and key = "''a''" and v = "[49]"
         and now' = 200 and later = 201, OF h]
    by simp
qed

text \<open>
  C10. On a live key, \<open>Expire(k, ttl)\<close> with a non-positive \<open>ttl\<close> does what
  \<open>Persist(k)\<close> does: the same result and the same table. It returns no error, the entry
  stays with its value and the zero instant as expiration, and \<open>TTL(k)\<close> afterwards is
  \<open>-1\<close>.
\<close>

theorem Expire_nonpositive_is_Persist:
  assumes "m key = Some e" and "\<not> expired now e" and "sint ttl \<le> 0"
  shows "Expire now m key ttl = Persist now m key
       \<and> Expire now m key ttl = (None, m(key \<mapsto> e\<lparr>expire := 0\<rparr>))
       \<and> fst (TTL now' later (snd (Expire now m key ttl)) key) = Inr (- 1)"
  using assms
  by (simp add: Expire_def Persist_def TTL_def lookup_def expiry_def expired_def IsZero_def)

theorem Expire_nonpositive_is_Persist_witness:
  "Expire 100 [''s'' \<mapsto> \<lparr>value_b = [1], expire = 500\<rparr>] ''s'' (- 5)
      = Persist 100 [''s'' \<mapsto> \<lparr>value_b = [1], expire = 500\<rparr>] ''s''
   \<and> Expire 100 [''s'' \<mapsto> \<lparr>value_b = [1], expire = 500\<rparr>] ''s'' (- 5)
      = (None, [''s'' \<mapsto> \<lparr>value_b = [1], expire = 500\<rparr>]
                 (''s'' \<mapsto> \<lparr>value_b = [1], expire = 500\<rparr>\<lparr>expire := 0\<rparr>))
   \<and> fst (TTL 900 901 (snd (Expire 100 [''s'' \<mapsto> \<lparr>value_b = [1], expire = 500\<rparr>] ''s'' (- 5)))
           ''s'') = Inr (- 1)"
proof -
  let ?e = "\<lparr>value_b = [1 :: byte], expire = 500\<rparr>"
  have h1: "[''s'' \<mapsto> ?e] ''s'' = Some ?e" by simp
  have h2: "\<not> expired 100 ?e" by (simp add: expired_def IsZero_def)
  have h3: "sint (- 5 :: Duration) \<le> 0" by simp
  show ?thesis
    by (rule Expire_nonpositive_is_Persist
          [where m = "[''s'' \<mapsto> ?e]" and key = "''s''" and e = ?e and now = 100
             and ttl = "- 5" and now' = 900 and later = 901, OF h1 h2 h3])
qed

section \<open>GetSet\<close>

text \<open>
  C8. \<open>GetSet(k, v)\<close> on a key with no live entry (absent, or present but expired)
  returns \<open>ErrNotFound\<close> and stores \<open>v\<close> all the same: a \<open>Get(k)\<close> on the resulting
  table, at any clock reading, succeeds with \<open>v\<close>.
\<close>

theorem GetSet_NotFound_still_stores:
  assumes "m key = None \<or> (\<exists>e. m key = Some e \<and> expired now e)"
  shows "fst (GetSet now m key v) = Inl ErrNotFound
       \<and> fst (Get now' (snd (GetSet now m key v)) key) = Inr v"
  using assms
  by (auto simp add: GetSet_def Get_def lookup_def clone_id expired_def IsZero_def)

theorem GetSet_NotFound_still_stores_witness:
  "fst (GetSet 100 Map.empty ''x'' [118, 50]) = Inl ErrNotFound
     \<and> fst (Get 100 (snd (GetSet 100 Map.empty ''x'' [118, 50])) ''x'') = Inr [118, 50]"
proof -
  have h: "(Map.empty :: table) ''x'' = None
             \<or> (\<exists>e. (Map.empty :: table) ''x'' = Some e \<and> expired 100 e)"
    by simp
  show ?thesis
    by (rule GetSet_NotFound_still_stores
          [where m = Map.empty and key = "''x''" and now = 100 and now' = 100
             and v = "[118, 50]", OF h])
qed

text \<open>
  C1, as the code has it. \<open>GetSet(k, v)\<close> always leaves an entry for \<open>k\<close> holding
  \<open>v\<close> and touches no other key. The expiration of that entry is the zero instant (none)
  when \<open>k\<close> was absent or expired, and the unchanged expiration of the previous entry
  when \<open>k\<close> was live.
\<close>

theorem GetSet_stores_value_keeps_live_expiration:
  "snd (GetSet now m key v)
     = m(key \<mapsto> \<lparr>value_b = v,
                   expire = (case m key of
                               None \<Rightarrow> 0
                             | Some e \<Rightarrow> if expired now e then 0 else expire e)\<rparr>)"
  by (cases "m key") (simp_all add: GetSet_def lookup_def clone_id Let_def entry_update_value)

theorem GetSet_stores_value_keeps_live_expiration_witness:
  "snd (GetSet 100 [''k'' \<mapsto> \<lparr>value_b = [1], expire = 200\<rparr>] ''k'' [2])
      = [''k'' \<mapsto> \<lparr>value_b = [2], expire = 200\<rparr>]
   \<and> snd (GetSet 100 [''k'' \<mapsto> \<lparr>value_b = [1], expire = 50\<rparr>] ''k'' [2])
      = [''k'' \<mapsto> \<lparr>value_b = [2], expire = 0\<rparr>]
   \<and> snd (GetSet 100 Map.empty ''k'' [2]) = [''k'' \<mapsto> \<lparr>value_b = [2], expire = 0\<rparr>]"
  using GetSet_stores_value_keeps_live_expiration
          [where now = 100 and m = "[''k'' \<mapsto> \<lparr>value_b = [1], expire = 200\<rparr>]"
             and key = "''k''" and v = "[2]"]
        GetSet_stores_value_keeps_live_expiration
          [where now = 100 and m = "[''k'' \<mapsto> \<lparr>value_b = [1], expire = 50\<rparr>]"
             and key = "''k''" and v = "[2]"]
        GetSet_stores_value_keeps_live_expiration
          [where now = 100 and m = Map.empty and key = "''k''" and v = "[2]"]
  by (simp add: expired_def IsZero_def)

text \<open>
  The claim as stated fails on a live entry with a pending expiration: the entry for
  \<open>k\<close> after the call still expires at instant 200.
\<close>

theorem GetSet_no_expiration_counterexample:
  "snd (GetSet 100 [''k'' \<mapsto> \<lparr>value_b = [1], expire = 200\<rparr>] ''k'' [2]) ''k''
      = Some \<lparr>value_b = [2], expire = 200\<rparr>
   \<and> snd (GetSet 100 [''k'' \<mapsto> \<lparr>value_b = [1], expire = 200\<rparr>] ''k'' [2]) ''k''
      \<noteq> Some \<lparr>value_b = [2], expire = 0\<rparr>"
  by (simp add: GetSet_def lookup_def clone_id expired_def IsZero_def)

section \<open>CompareAndSwap\<close>

text \<open>
  C4, as the code has it. \<open>CompareAndSwap(k, old, new, ttl)\<close> returns true exactly when
  \<open>k\<close> has a live entry whose value equals \<open>old\<close>, and then the entry for \<open>k\<close> becomes
  \<open>new\<close> with the expiration computed from \<open>ttl\<close>. When it returns false the table is
  as before, except that an expired entry found for \<open>k\<close> has been deleted.
\<close>

theorem CompareAndSwap_iff_live_and_equal:
  "(fst (CompareAndSwap now m key old new ttl)
      \<longleftrightarrow> (\<exists>e. m key = Some e \<and> \<not> expired now e \<and> value_b e = old))
   \<and> (fst (CompareAndSwap now m key old new ttl)
        \<longrightarrow> snd (CompareAndSwap now m key old new ttl)
              = m(key \<mapsto> \<lparr>value_b = new, expire = expiry now ttl\<rparr>))
   \<and> (\<not> fst (CompareAndSwap now m key old new ttl)
        \<longrightarrow> snd (CompareAndSwap now m key old new ttl)
              = (if \<exists>e. m key = Some e \<and> expired now e then m(key := None) else m))"
  by (cases "m key") (auto simp add: CompareAndSwap_def lookup_def clone_id)

theorem CompareAndSwap_iff_live_and_equal_witness:
  "fst (CompareAndSwap 100 [''k'' \<mapsto> \<lparr>value_b = [1], expire = 500\<rparr>] ''k'' [1] [2] 0)
   \<and> snd (CompareAndSwap 100 [''k'' \<mapsto> \<lparr>value_b = [1], expire = 500\<rparr>] ''k'' [1] [2] 0)
        = [''k'' \<mapsto> \<lparr>value_b = [2], expire = 0\<rparr>]
   \<and> \<not> fst (CompareAndSwap 100 [''k'' \<mapsto> \<lparr>value_b = [1], expire = 500\<rparr>] ''k'' [9] [2] 0)
   \<and> snd (CompareAndSwap 100 [''k'' \<mapsto> \<lparr>value_b = [1], expire = 500\<rparr>] ''k'' [9] [2] 0)
        = [''k'' \<mapsto> \<lparr>value_b = [1], expire = 500\<rparr>]"
proof -
  let ?e = "\<lparr>value_b = [1 :: byte], expire = 500\<rparr>"
  have live: "\<not> expired 100 ?e" by (simp add: expired_def IsZero_def)
  have ttl: "expiry 100 0 = 0" by (simp add: expiry_def)
  show ?thesis
    using CompareAndSwap_iff_live_and_equal
            [where now = 100 and m = "[''k'' \<mapsto> ?e]" and key = "''k''" and old = "[1]"
               and new = "[2]" and ttl = 0]
          CompareAndSwap_iff_live_and_equal
            [where now = 100 and m = "[''k'' \<mapsto> ?e]" and key = "''k''" and old = "[9]"
               and new = "[2]" and ttl = 0]
          live ttl
    by simp
qed

text \<open>
  The claim as stated fails on an expired entry: the call returns false and the entry
  for \<open>k\<close>, in the table before the call, is gone after it.
\<close>

theorem CompareAndSwap_unchanged_counterexample:
  "\<not> fst (CompareAndSwap 100 [''k'' \<mapsto> \<lparr>value_b = [1], expire = 50\<rparr>] ''k'' [1] [2] 0)
   \<and> snd (CompareAndSwap 100 [''k'' \<mapsto> \<lparr>value_b = [1], expire = 50\<rparr>] ''k'' [1] [2] 0) ''k''
        \<noteq> [''k'' \<mapsto> \<lparr>value_b = [1], expire = 50\<rparr>] ''k''"
  by (simp add: CompareAndSwap_def lookup_def expired_def IsZero_def)

section \<open>Lazy deletion\<close>

lemma MGet_loop_at:
  "MGet_loop now m keys result k =
     (case m k of
        Some e \<Rightarrow> if k \<in> set keys \<and> \<not> expired now e then Some (value_b e) else result k
      | None \<Rightarrow> result k)"
  by (induction keys arbitrary: result) (auto simp add: lookup_def clone_id split: option.splits)

text \<open>
  Every single-key path that finds an expired entry for its key deletes it before it
  answers: \<open>Get\<close>, \<open>Exists\<close>, \<open>TTL\<close>, \<open>Expire\<close>, \<open>Persist\<close> and
  \<open>CompareAndSwap\<close> return the table without the key.
\<close>

lemma single_key_paths_delete_expired:
  assumes "m key = Some e" and "expired now e"
  shows "Get now m key = (Inl ErrNotFound, m(key := None))"
    and "Exists now m key = (False, m(key := None))"
    and "TTL now later m key = (Inl ErrNotFound, m(key := None))"
    and "Expire now m key ttl = (Some ErrNotFound, m(key := None))"
    and "Persist now m key = (Some ErrNotFound, m(key := None))"
    and "CompareAndSwap now m key old new ttl = (False, m(key := None))"
  using assms
  by (simp_all add: Get_def Exists_def TTL_def Expire_def Persist_def CompareAndSwap_def
        lookup_def)

text \<open>
  \<open>MGet\<close> leaves an expired key out of the map it returns, and returns the table it
  was given, whatever the keys and the clock.
\<close>

lemma MGet_omits_expired:
  assumes "m key = Some e" and "expired now e"
  shows "fst (MGet now m keys) key = None"
  using assms by (simp add: MGet_def MGet_loop_at)

lemma MGet_table_unchanged: "snd (MGet now m keys) = m"
  by (simp add: MGet_def)

text \<open>
  C2. An operation that observes an expired entry removes it from the table; in
  particular \<open>MGet\<close> should. The code does not: with the clock at instant 100 and the
  table holding for \<open>k\<close> an entry that expired at instant 50, \<open>MGet([k])\<close> leaves \<open>k\<close>
  out of the returned map, and the expired entry is still in the table after the call.
\<close>

theorem MGet_keeps_expired_entry:
  "expired 100 \<lparr>value_b = [1], expire = 50\<rparr>
   \<and> fst (MGet 100 [''k'' \<mapsto> \<lparr>value_b = [1], expire = 50\<rparr>] [''k'']) ''k'' = None
   \<and> snd (MGet 100 [''k'' \<mapsto> \<lparr>value_b = [1], expire = 50\<rparr>] [''k'']) ''k''
        = Some \<lparr>value_b = [1], expire = 50\<rparr>"
  by (simp add: MGet_def lookup_def expired_def IsZero_def)

section \<open>Enumeration with a malformed pattern\<close>

text \<open>
  \<open>Keys\<close> hands the pattern to the matcher only inside its loop, for a key that starts
  with \<open>prefix:\<close>. When the matcher reports \<open>ErrBadPattern\<close> there, \<open>Keys\<close> returns
  \<open>ErrInvalidPattern\<close> and no results: this is the path the repository's test takes,
  which stores \<open>prefix:key1\<close> before it calls \<open>Keys\<close> with \<open>[invalid\<close>.
\<close>

lemma Keys_loop_bad_pattern:
  assumes "pattern \<noteq> []" and "pattern \<noteq> ''*''"
    and "\<forall>key \<in> set order. HasPrefix key (prefix @ '':'')
           \<longrightarrow> match pattern (drop (length prefix + 1) key) = Inl ErrBadPattern"
  shows "Keys_loop match now m prefix pattern order result
           = (if \<exists>key \<in> set order. HasPrefix key (prefix @ '':'')
              then Inl ErrInvalidPattern else Inr result)"
  using assms by (induction order arbitrary: result) auto

lemma Keys_reports_bad_pattern_on_candidate:
  assumes "pattern \<noteq> []" and "pattern \<noteq> ''*''"
    and "\<forall>key \<in> set order. HasPrefix key (prefix @ '':'')
           \<longrightarrow> match pattern (drop (length prefix + 1) key) = Inl ErrBadPattern"
    and "\<exists>key \<in> set order. HasPrefix key (prefix @ '':'')"
  shows "Keys match order now m prefix pattern = (Inl ErrInvalidPattern, m)"
  using assms by (simp add: Keys_def Keys_loop_bad_pattern)

text \<open>
  With no key under the prefix the loop never reaches the matcher: whatever the matcher
  and the pattern, \<open>Keys\<close> returns an empty result and no error.
\<close>

lemma Keys_loop_without_candidate:
  assumes "\<forall>key \<in> set order. \<not> HasPrefix key (prefix @ '':'')"
  shows "Keys_loop match now m prefix pattern order result = Inr result"
  using assms by (induction order arbitrary: result) auto

lemma Keys_without_candidate:
  assumes "\<forall>key \<in> set order. \<not> HasPrefix key (prefix @ '':'')"
  shows "Keys match order now m prefix pattern = (Inr [], m)"
  using assms by (simp add: Keys_def Keys_loop_without_candidate)

text \<open>
  C3. \<open>Keys(prefix, pattern)\<close> with a malformed pattern should return
  \<open>ErrInvalidPattern\<close> on every table. The code does not: on a table whose only key,
  \<open>other:a\<close>, is not under \<open>prefix\<close>, \<open>Keys(prefix, [invalid)\<close> returns an empty
  result and no error, even with a matcher that rejects the pattern on every name.
\<close>

theorem Keys_malformed_pattern_without_candidate:
  "fst (Keys reject_every_pattern [''other:a''] 100
          [''other:a'' \<mapsto> \<lparr>value_b = [1], expire = 0\<rparr>] ''prefix'' ''[invalid'') = Inr []
   \<and> fst (Keys reject_every_pattern [''other:a''] 100
          [''other:a'' \<mapsto> \<lparr>value_b = [1], expire = 0\<rparr>] ''prefix'' ''[invalid'')
        \<noteq> Inl ErrInvalidPattern"
  by (simp add: Keys_def HasPrefix_def)

text \<open>
  The error depends on what is stored, down to an expired leftover: with the clock at
  instant 100 and \<open>prefix:old\<close> expired at instant 50, \<open>Keys\<close> reports
  \<open>ErrInvalidPattern\<close>; once a \<open>Get\<close> has deleted that entry, the same call returns
  an empty result and no error.
\<close>

lemma Keys_error_depends_on_expired_entry:
  "fst (Keys reject_every_pattern [''prefix:old''] 100
          [''prefix:old'' \<mapsto> \<lparr>value_b = [1], expire = 50\<rparr>] ''prefix'' ''[invalid'')
      = Inl ErrInvalidPattern
   \<and> snd (Get 100 [''prefix:old'' \<mapsto> \<lparr>value_b = [1], expire = 50\<rparr>] ''prefix:old'')
      = Map.empty
   \<and> fst (Keys reject_every_pattern [] 100
          (snd (Get 100 [''prefix:old'' \<mapsto> \<lparr>value_b = [1], expire = 50\<rparr>] ''prefix:old''))
          ''prefix'' ''[invalid'')
      = Inr []"
  by (simp add: Keys_def HasPrefix_def reject_every_pattern_def Get_def lookup_def
        expired_def IsZero_def)

end
